theory Spec2Isabelle
  imports Complex_Main
begin

section \<open>Process supervision and file locking of \<open>matrix/utils/os.py\<close>\<close>

text \<open>
  The module supervises child processes and polls for a file lock. Its functions talk to
  the operating system, to \<open>psutil\<close>, to \<open>portalocker\<close> and to a logger supplied by the
  caller. In this development every such call is an explicit input: the answer the
  outside world gives is a field of an environment record, and what the function does
  with the answer is the definition translated from the module. Exceptions are values
  of the type \<open>exn\<close>; a call that never comes back is the value \<open>None\<close>. Output written
  with \<open>print\<close> is not represented.
\<close>

subsection \<open>Exceptions and results\<close>

datatype exn =
    PyException string           \<comment> \<open>an instance of some other subclass of \<open>Exception\<close>, with its \<open>str()\<close>\<close>
  | KeyboardInterrupt            \<comment> \<open>a \<open>BaseException\<close> that \<open>except Exception\<close> does not catch\<close>
  | KeyError string
  | ValueError string
  | UnboundLocalError string     \<comment> \<open>the name of the local variable read before assignment\<close>
  | TimeoutError string rat      \<comment> \<open>file path and timeout of \<open>lock_file\<close>\<close>
  | AlreadyLocked
  | NoSuchProcess nat
  | AccessDenied nat
  | TimeoutExpired nat
  | UnicodeDecodeError           \<comment> \<open>a subclass of \<open>ValueError\<close>\<close>

fun is_Exception :: "exn \<Rightarrow> bool" where
  "is_Exception KeyboardInterrupt = False"
| "is_Exception _ = True"

datatype 'a outcome = Returned 'a | Raised exn

subsection \<open>Strings\<close>

abbreviation newline :: char where
  "newline \<equiv> CHR 0x0A"

text \<open>The code points below 256 for which Python's \<open>str.isspace\<close> holds.\<close>

definition isspace :: "char \<Rightarrow> bool" where
  "isspace c = (c \<in> set [CHR 0x09, CHR 0x0A, CHR 0x0B, CHR 0x0C, CHR 0x0D,
                          CHR 0x1C, CHR 0x1D, CHR 0x1E, CHR 0x1F, CHR 0x20,
                          CHR 0x85, CHR 0xA0])"

definition strip :: "string \<Rightarrow> string" where
  "strip s = rev (dropWhile isspace (rev (dropWhile isspace s)))"

fun digit_char :: "nat \<Rightarrow> char" where
  "digit_char n = ''0123456789'' ! (n mod 10)"

fun str_nat :: "nat \<Rightarrow> string" where
  "str_nat n = (if n < 10 then [digit_char n] else str_nat (n div 10) @ [digit_char n])"

declare str_nat.simps [simp del]

definition str_int :: "int \<Rightarrow> string" where
  "str_int i = (if i < 0 then CHR ''-'' # str_nat (nat (- i)) else str_nat (nat i))"

text \<open>
  \<open>str(e)\<close>. The message of \<open>TimeoutError\<close> ends with the timeout and the word
  \<open>seconds\<close>; the rendering of the number is left out.
\<close>

fun str_exn :: "exn \<Rightarrow> string" where
  "str_exn (PyException m) = m"
| "str_exn KeyboardInterrupt = []"
| "str_exn (KeyError k) = [CHR 0x27] @ k @ [CHR 0x27]"
| "str_exn (ValueError m) = m"
| "str_exn (UnboundLocalError v) =
     ''cannot access local variable '' @ [CHR 0x27] @ v @ [CHR 0x27] @
     '' where it is not associated with a value''"
| "str_exn (TimeoutError p t) = ''Could not acquire lock for '' @ p"
| "str_exn AlreadyLocked = []"
| "str_exn (NoSuchProcess p) = ''process no longer exists (pid='' @ str_nat p @ '')''"
| "str_exn (AccessDenied p) = ''(pid='' @ str_nat p @ '')''"
| "str_exn (TimeoutExpired p) = ''timeout after 5 seconds (pid='' @ str_nat p @ '')''"
| "str_exn UnicodeDecodeError = ''codec can't decode byte''"

text \<open>
  A text stream is the list of its characters still to be read. \<open>readline\<close> returns the
  text up to and including the next newline, or what is left when there is none; it
  returns the empty string exactly at the end of the stream.
\<close>

fun readline :: "string \<Rightarrow> string \<times> string" where
  "readline [] = ([], [])"
| "readline (c # cs) =
     (if c = newline then ([c], cs)
      else (case readline cs of (l, r) \<Rightarrow> (c # l, r)))"

text \<open>Iterating over the stream (\<open>for line in f\<close>) reads lines until the end.\<close>

fun readlines_from :: "string \<Rightarrow> string \<Rightarrow> string list" where
  "readlines_from acc [] = (if acc = [] then [] else [acc])"
| "readlines_from acc (c # cs) =
     (if c = newline then (acc @ [c]) # readlines_from [] cs
      else readlines_from (acc @ [c]) cs)"

definition readlines :: "string \<Rightarrow> string list" where
  "readlines s = readlines_from [] s"

subsection \<open>The output buffer: \<open>deque(maxlen=10)\<close>\<close>

definition maxlen :: nat where
  "maxlen = 10"

text \<open>
  \<open>deque.append\<close> on a bounded deque puts the item at the right end and, when the deque
  is then longer than its bound, drops the item at the left end.
\<close>

definition deque_append :: "nat \<Rightarrow> 'a list \<Rightarrow> 'a \<Rightarrow> 'a list" where
  "deque_append n d x = (let d' = d @ [x] in if n < length d' then tl d' else d')"

subsection \<open>The streaming thread: \<open>stream_output\<close>\<close>

text \<open>
  A logger is the \<open>log\<close> closure of \<open>run_and_stream\<close>: given the message it either returns
  (\<open>None\<close>) or raises.

  \<open>process.stdout\<close> is a pipe here, since \<open>Popen\<close> is called with \<open>stdout=PIPE\<close>, so the
  tests \<open>if process.stdout\<close> succeed. The thread's polling loop runs while the terminate
  flag is unset and the process is alive. Its schedule has one entry per iteration made before that condition fails:
  whether \<open>select\<close> reported the pipe readable within its 0.1 seconds. The pipe is the
  text the thread has still to read. The loop returns the exception that left it, if
  any, with the pipe and the buffer at that moment.
\<close>

type_synonym logger = "string \<Rightarrow> exn option"

fun stream_loop ::
  "logger \<Rightarrow> bool list \<Rightarrow> string \<Rightarrow> string list \<Rightarrow> exn option \<times> string \<times> string list"
where
  "stream_loop lg [] pipe buf = (None, pipe, buf)"
| "stream_loop lg (ready # sched) pipe buf =
     (if \<not> ready then stream_loop lg sched pipe buf
      else (case readline pipe of
              (line, rest) \<Rightarrow>
                if line = [] then stream_loop lg sched rest buf
                else (case lg (strip line) of
                        Some e \<Rightarrow> (Some e, rest, buf)
                      | None \<Rightarrow> stream_loop lg sched rest (deque_append maxlen buf line))))"

text \<open>
  The \<open>finally\<close> clause, \<open>for line in process.stdout\<close>: every remaining line is appended,
  then logged.
\<close>

fun drain_lines :: "logger \<Rightarrow> string list \<Rightarrow> string list \<Rightarrow> exn option \<times> string list" where
  "drain_lines lg [] buf = (None, buf)"
| "drain_lines lg (line # rest) buf =
     (let buf' = deque_append maxlen buf line
      in case lg (strip line) of
           Some e \<Rightarrow> (Some e, buf')
         | None \<Rightarrow> drain_lines lg rest buf')"

definition drain :: "logger \<Rightarrow> string \<Rightarrow> string list \<Rightarrow> exn option \<times> string list" where
  "drain lg pipe buf = drain_lines lg (readlines pipe) buf"

text \<open>
  An exception raised in the \<open>finally\<close> clause replaces the one that was propagating;
  otherwise the propagating one, if any, leaves the thread.
\<close>

definition finally_raises :: "exn option \<Rightarrow> exn option \<Rightarrow> exn option" where
  "finally_raises pending raised = (case raised of Some e \<Rightarrow> Some e | None \<Rightarrow> pending)"

definition stream_output :: "logger \<Rightarrow> bool list \<Rightarrow> string \<Rightarrow> exn option \<times> string list" where
  "stream_output lg sched pipe =
     (case stream_loop lg sched pipe [] of
        (None, pipe', buf) \<Rightarrow> drain lg pipe' buf
      | (Some e, pipe', buf) \<Rightarrow>
          (let pending =
                 (if is_Exception e
                  then lg (''Error reading subprocess output: '' @ str_exn e)
                  else Some e)
           in case drain lg pipe' buf of
                (raised, buf') \<Rightarrow> (finally_raises pending raised, buf')))"

subsection \<open>Reading lines without blocking: \<open>read_stdout_lines\<close>\<close>

text \<open>
  \<open>proc.stdout\<close> is \<open>None\<close> or a pipe. A pipe is the text still to be read, with the
  number of lines that can be read before \<open>readline\<close> meets output that does not decode
  and raises \<open>UnicodeDecodeError\<close> (\<open>None\<close> when all of it decodes). \<open>sel k\<close> is what the
  \<open>select\<close> call of iteration \<open>k\<close> (timeout 0) does: it reports nothing readable, reports
  the pipe readable, or raises, as it does with \<open>ValueError\<close> for a pipe that has been
  closed. The loop is \<open>while True\<close>: it ends only at the \<open>break\<close> or by an exception, so
  the generator that never finishes is the value \<open>None\<close>. The result is the list of the
  values yielded and how the generator ended.
\<close>

datatype select_result = Nothing_ready | Readable | Select_raises exn

record pipe =
  content :: string
  undecodable_after :: "nat option"

partial_function (option) read_loop ::
  "(nat \<Rightarrow> select_result) \<Rightarrow> nat option \<Rightarrow> nat \<Rightarrow> string \<Rightarrow> string list \<Rightarrow>
   (string list \<times> unit outcome) option"
where
  "read_loop sel bad k text yielded =
     (case sel k of
        Select_raises e \<Rightarrow> Some (yielded, Raised e)
      | Nothing_ready \<Rightarrow> read_loop sel bad (Suc k) text yielded
      | Readable \<Rightarrow>
          if bad = Some (length yielded) then Some (yielded, Raised UnicodeDecodeError)
          else (case readline text of
                  (output_line, rest) \<Rightarrow>
                    if output_line = [] then Some (yielded, Returned ())
                    else read_loop sel bad (Suc k) rest (yielded @ [strip output_line])))"

definition read_stdout_lines ::
  "(nat \<Rightarrow> select_result) \<Rightarrow> pipe option \<Rightarrow> (string list \<times> unit outcome) option"
where
  "read_stdout_lines sel proc_stdout =
     (case proc_stdout of
        None \<Rightarrow>
          Some ([], Raised (ValueError
            ''Ensure stdout=subprocess.PIPE and text=True are set in Popen.''))
      | Some p \<Rightarrow> read_loop sel (undecodable_after p) 0 (content p) [])"

subsection \<open>Running a command: \<open>run_and_stream\<close> and \<open>stop_process\<close>\<close>

text \<open>
  The caller's logger has the two methods the module calls. \<open>logging_config\<close> is the
  dictionary with the optional entry \<open>remote\<close> and the entry \<open>logger\<close>.
\<close>

record logger_obj =
  info :: logger              \<comment> \<open>\<open>logger.info(str)\<close>\<close>
  log_remote :: logger        \<comment> \<open>\<open>logger.log.remote(str)\<close>\<close>

record logging_config =
  lc_remote :: "bool option"
  lc_logger :: "logger_obj option"

definition str_pid :: "nat option \<Rightarrow> string" where
  "str_pid pid = (case pid of None \<Rightarrow> ''None'' | Some p \<Rightarrow> str_nat p)"

definition log :: "bool \<Rightarrow> logger_obj \<Rightarrow> nat option \<Rightarrow> logger" where
  "log remote lgr pid str =
     (if remote then log_remote lgr (''['' @ str_pid pid @ '']'' @ str)
      else info lgr str)"

text \<open>
  What the operating system answers to the thread that called \<open>run_and_stream\<close>:
  \<^item> \<open>popen\<close>: \<open>subprocess.Popen(command, shell=True, ...)\<close> raises or returns the pid of the
    child;
  \<^item> \<open>os_getpgid\<close>: the process group of a pid;
  \<^item> \<open>os_poll k\<close>: the answer to the \<open>k\<close>-th time \<open>process.poll()\<close> has to ask the system,
    \<open>None\<close> while the child runs and its exit code afterwards;
  \<^item> \<open>sleep_raises k\<close>: the exception, if any, that a signal handler raises during the
    \<open>k\<close>-th \<open>time.sleep(1)\<close>;
  \<^item> \<open>after_sigterm\<close>: the return code \<open>process.wait()\<close> obtains once \<open>SIGTERM\<close> has been
    sent to the group, \<open>None\<close> when the child never exits and \<open>wait\<close> blocks for ever;
  \<^item> \<open>seen_sched\<close>, \<open>seen_pipe\<close>: the part of its schedule and the lines of the pipe
    that the streaming thread has gone through at the moment the caller reads
    \<open>stdout_buffer\<close>.
\<close>

record os_env =
  popen :: "string \<Rightarrow> exn + nat"
  os_getpgid :: "nat \<Rightarrow> nat"
  os_poll :: "nat \<Rightarrow> int option"
  sleep_raises :: "nat \<Rightarrow> exn option"
  after_sigterm :: "int option"
  seen_sched :: "bool list"
  seen_pipe :: string

text \<open>
  The state the calling thread changes: the \<open>returncode\<close> attribute of the \<open>Popen\<close>
  object, how often the system was asked and how often the thread slept, the signals
  sent with \<open>os.killpg\<close> (group and signal number), and the terminate flag.
\<close>

record run_state =
  returncode :: "int option"
  queries :: nat
  slept :: nat
  signals :: "(nat \<times> nat) list"
  terminate_flag :: bool

definition init_state :: run_state where
  "init_state = \<lparr>returncode = None, queries = 0, slept = 0, signals = [], terminate_flag = False\<rparr>"

definition SIGTERM :: nat where
  "SIGTERM = 15"

text \<open>\<open>process.poll()\<close> returns the return code once it is known and asks the system before.\<close>

definition poll :: "os_env \<Rightarrow> run_state \<Rightarrow> int option \<times> run_state" where
  "poll env s =
     (case returncode s of
        Some c \<Rightarrow> (Some c, s)
      | None \<Rightarrow>
          (let r = os_poll env (queries s)
           in (r, s\<lparr>returncode := r, queries := Suc (queries s)\<rparr>)))"

definition stop_process :: "os_env \<Rightarrow> nat option \<Rightarrow> run_state \<Rightarrow> run_state option" where
  "stop_process env process s =
     (case process of
        None \<Rightarrow> Some s
      | Some pid \<Rightarrow>
          (case poll env s of
             (Some c, s') \<Rightarrow> Some s'
           | (None, s') \<Rightarrow>
               (let s'' = s'\<lparr>signals := signals s' @ [(os_getpgid env pid, SIGTERM)]\<rparr>
                in case after_sigterm env of
                     None \<Rightarrow> None
                   | Some c \<Rightarrow> Some (s''\<lparr>returncode := Some c\<rparr>))))"

record run_result =
  success :: bool
  exit_code :: "int option"
  stdout :: string
  error :: "string option"
  traceback :: "string option"

datatype run_value = Handle nat | Result run_result

text \<open>The wait loop of the blocking branch: the exit code, or the exception that left it.\<close>

partial_function (option) wait_loop ::
  "os_env \<Rightarrow> run_state \<Rightarrow> ((exn + int) \<times> run_state) option"
where
  "wait_loop env s =
     (case poll env s of
        (Some code, s') \<Rightarrow> Some (Inr code, s')
      | (None, s') \<Rightarrow>
          (case sleep_raises env (slept s') of
             Some e \<Rightarrow> Some (Inl e, s')
           | None \<Rightarrow> wait_loop env (s'\<lparr>slept := Suc (slept s')\<rparr>)))"

text \<open>
  The \<open>try\<close> block. Besides its outcome it gives the binding of the local variable
  \<open>stdout_content\<close> when it is left: the variable is assigned on the last line before
  the \<open>return\<close> only.
\<close>

definition try_block ::
  "os_env \<Rightarrow> logger \<Rightarrow> run_state \<Rightarrow> (run_value outcome \<times> string option \<times> run_state) option"
where
  "try_block env lg s =
     (case wait_loop env s of
        None \<Rightarrow> None
      | Some (Inl e, s') \<Rightarrow> Some (Raised e, None, s')
      | Some (Inr code, s') \<Rightarrow>
          (case lg (''Process exited with code '' @ str_int code) of
             Some e \<Rightarrow> Some (Raised e, None, s')
           | None \<Rightarrow>
               (let stdout_content =
                      concat (snd (stream_output lg (seen_sched env) (seen_pipe env)))
                in Some (Returned (Result
                           \<lparr>success = (code = 0), exit_code = Some code,
                            stdout = stdout_content, error = None, traceback = None\<rparr>),
                         Some stdout_content, s'))))"

definition format_exc :: "exn \<Rightarrow> string" where
  "format_exc e = ''Traceback (most recent call last):'' @ [newline] @ str_exn e @ [newline]"

text \<open>The \<open>except Exception as e\<close> clause, which reads \<open>stdout_content\<close>.\<close>

definition except_block :: "exn \<Rightarrow> string option \<Rightarrow> run_value outcome" where
  "except_block e stdout_content =
     (case stdout_content of
        None \<Rightarrow> Raised (UnboundLocalError ''stdout_content'')
      | Some c \<Rightarrow>
          Returned (Result
            \<lparr>success = False, exit_code = None, stdout = c,
             error = Some (str_exn e), traceback = Some (format_exc e)\<rparr>))"

text \<open>
  The \<open>finally\<close> clause. Joining the streaming thread (for one second at most) changes
  nothing the calling thread reads afterwards.
\<close>

definition finally_block ::
  "os_env \<Rightarrow> logger \<Rightarrow> nat \<Rightarrow> run_state \<Rightarrow> (exn option \<times> run_state) option"
where
  "finally_block env lg pid s =
     (case stop_process env (Some pid) (s\<lparr>terminate_flag := True\<rparr>) of
        None \<Rightarrow> None
      | Some s' \<Rightarrow> Some (lg ''Subprocess killed'', s'))"

definition blocking_branch ::
  "os_env \<Rightarrow> logger \<Rightarrow> nat \<Rightarrow> run_state \<Rightarrow> (run_value outcome \<times> run_state) option"
where
  "blocking_branch env lg pid s =
     (case try_block env lg s of
        None \<Rightarrow> None
      | Some (out, stdout_content, s') \<Rightarrow>
          (let out' = (case out of
                         Returned v \<Rightarrow> Returned v
                       | Raised e \<Rightarrow>
                           if is_Exception e then except_block e stdout_content
                           else Raised e)
           in case finally_block env lg pid s' of
                None \<Rightarrow> None
              | Some (None, s'') \<Rightarrow> Some (out', s'')
              | Some (Some e, s'') \<Rightarrow> Some (Raised e, s'')))"

definition run_and_stream ::
  "os_env \<Rightarrow> logging_config \<Rightarrow> string \<Rightarrow> bool \<Rightarrow> (run_value outcome \<times> run_state) option"
where
  "run_and_stream env logging_config command blocking =
     (let remote = (case lc_remote logging_config of None \<Rightarrow> False | Some b \<Rightarrow> b)
      in case lc_logger logging_config of
           None \<Rightarrow> Some (Raised (KeyError ''logger''), init_state)
         | Some logger \<Rightarrow>
             (case log remote logger None (''launch: '' @ command) of
                Some e \<Rightarrow> Some (Raised e, init_state)
              | None \<Rightarrow>
                  (case popen env command of
                     Inl e \<Rightarrow> Some (Raised e, init_state)
                   | Inr pid \<Rightarrow>
                       (let lg = log remote logger (Some pid)
                        in case lg (''Launch proces '' @ str_nat pid @ '' with group '' @
                                    str_nat (os_getpgid env pid)) of
                             Some e \<Rightarrow> Some (Raised e, init_state)
                           | None \<Rightarrow>
                               if \<not> blocking then Some (Returned (Handle pid), init_state)
                               else blocking_branch env lg pid init_state))))"

subsection \<open>Killing a process tree: \<open>kill_proc_tree\<close>\<close>





subsection \<open>Polling for a file lock: \<open>lock_file\<close>\<close>

text \<open>
  \<open>portalocker.Lock(filepath, mode, flags=LockFlags.EXCLUSIVE)\<close> is the constructor of the
  class \<open>Lock\<close>: it records the path and the mode it is given and neither opens nor
  locks the file. The file is opened and locked by the method \<open>acquire\<close>, which the
  context manager calls on entry;
  \<open>lock_file\<close> calls neither. So the object comes back with no lock held, whoever holds
  the lock on the file, and the constructor does not raise \<open>AlreadyLocked\<close>.
\<close>

record lock_handle =
  lock_path :: string
  lock_mode :: string
  acquired :: bool

definition Lock :: "string \<Rightarrow> string \<Rightarrow> lock_handle outcome" where
  "Lock filepath mode =
     Returned \<lparr>lock_path = filepath, lock_mode = mode, acquired = False\<rparr>"

text \<open>
  Times are seconds. \<open>clock0\<close> is what \<open>time.time()\<close> reads when \<open>lock_file\<close> is entered,
  \<open>held_by_other filepath t\<close> says whether another holder has the lock on the file at
  time \<open>t\<close>, and \<open>after_sleep t d\<close> is the time at which a \<open>time.sleep(d)\<close> begun at \<open>t\<close>
  returns; \<open>time.sleep\<close> refuses a negative length. The result of \<open>lock_file\<close> is its
  outcome and the times at which the constructor was called, the last of which is the
  time the function is left.
\<close>

record lock_env =
  clock0 :: rat
  held_by_other :: "string \<Rightarrow> rat \<Rightarrow> bool"
  after_sleep :: "rat \<Rightarrow> rat \<Rightarrow> rat"

partial_function (option) lock_loop ::
  "lock_env \<Rightarrow> string \<Rightarrow> string \<Rightarrow> rat \<Rightarrow> rat \<Rightarrow> rat \<Rightarrow> rat list \<Rightarrow>
   (lock_handle outcome \<times> rat list) option"
where
  "lock_loop env filepath mode timeout poll_interval now tried =
     (case Lock filepath mode of
        Returned h \<Rightarrow> Some (Returned h, tried @ [now])
      | Raised e \<Rightarrow>
          if e = AlreadyLocked then
            (if timeout \<le> now - clock0 env
             then Some (Raised (TimeoutError filepath timeout), tried @ [now])
             else if poll_interval < 0
             then Some (Raised (ValueError ''sleep length must be non-negative''),
                        tried @ [now])
             else lock_loop env filepath mode timeout poll_interval
                    (after_sleep env now poll_interval) (tried @ [now]))
          else Some (Raised e, tried @ [now]))"

definition lock_file ::
  "lock_env \<Rightarrow> string \<Rightarrow> string \<Rightarrow> rat \<Rightarrow> rat \<Rightarrow> (lock_handle outcome \<times> rat list) option"
where
  "lock_file env filepath mode timeout poll_interval =
     lock_loop env filepath mode timeout poll_interval (clock0 env) []"

subsection \<open>Example environments\<close>

text \<open>
  Concrete inputs used to run the definitions: a logger that always returns and one
  whose \<open>info\<close> raises on the message that reports exit code 0; a child with pid 4242
  that the first \<open>n\<close> polls find running and that then exits with code \<open>c\<close>, after the
  streaming thread has read the text \<open>out\<close>; and a child that never exits by itself
  while a signal handler raises during the third sleep of the caller.
\<close>

definition quiet_logger :: logger_obj where
  "quiet_logger = \<lparr>info = (\<lambda>_. None), log_remote = (\<lambda>_. None)\<rparr>"

definition quiet_config :: logging_config where
  "quiet_config = \<lparr>lc_remote = None, lc_logger = Some quiet_logger\<rparr>"

definition closing_logger :: logger_obj where
  "closing_logger =
     \<lparr>info = (\<lambda>m. if m = ''Process exited with code 0''
                   then Some (PyException ''sink closed'') else None),
      log_remote = (\<lambda>_. None)\<rparr>"

definition closing_config :: logging_config where
  "closing_config = \<lparr>lc_remote = None, lc_logger = Some closing_logger\<rparr>"

definition example_env :: "nat \<Rightarrow> int \<Rightarrow> string \<Rightarrow> os_env" where
  "example_env n c out =
     \<lparr>popen = (\<lambda>_. Inr 4242), os_getpgid = (\<lambda>p. p),
      os_poll = (\<lambda>k. if k < n then None else Some c),
      sleep_raises = (\<lambda>_. None), after_sigterm = Some (- 15),
      seen_sched = [True], seen_pipe = out\<rparr>"

definition interrupted_env :: os_env where
  "interrupted_env =
     \<lparr>popen = (\<lambda>_. Inr 4242), os_getpgid = (\<lambda>p. p),
      os_poll = (\<lambda>_. None),
      sleep_raises = (\<lambda>k. if k = 2 then Some (PyException ''alarm'') else None),
      after_sigterm = Some (- 15), seen_sched = [], seen_pipe = []\<rparr>"

text \<open>
  The child of \<open>echo hello && exit 3\<close> (pid 4242, one line of output, exit code 3) in
  a run where it has exited when it is first polled and the streaming thread has not
  read its line yet.
\<close>

definition early_exit_env :: os_env where
  "early_exit_env =
     \<lparr>popen = (\<lambda>_. Inr 4242), os_getpgid = (\<lambda>p. p),
      os_poll = (\<lambda>k. Some 3), sleep_raises = (\<lambda>_. None), after_sigterm = Some (- 15),
      seen_sched = [], seen_pipe = []\<rparr>"

text \<open>
  A \<open>select\<close> that reports the pipe readable at every other call, and one that raises
  at once because the pipe has been closed.
\<close>

definition every_other :: "nat \<Rightarrow> select_result" where
  "every_other k = (if even k then Readable else Nothing_ready)"

definition closed_pipe :: "nat \<Rightarrow> select_result" where
  "closed_pipe k = Select_raises (ValueError ''I/O operation on closed file'')"



text \<open>
  A lock file that another holder keeps for ever, first asked for at time 100, with
  sleeps that last as long as asked.
\<close>

definition held_env :: lock_env where
  "held_env =
     \<lparr>clock0 = 100, held_by_other = (\<lambda>p t. True), after_sleep = (\<lambda>t d. t + d)\<rparr>"

section \<open>Properties\<close>

subsection \<open>The output buffer\<close>

lemma length_deque_append:
  "length d \<le> n \<Longrightarrow> length (deque_append n d x) \<le> n"
  by (simp add: deque_append_def Let_def)

lemma deque_append_drop:
  "length d \<le> n \<Longrightarrow> deque_append n d x = drop (Suc (length d) - n) (d @ [x])"
  by (cases d) (auto simp: deque_append_def Let_def Suc_diff_le)

lemma readlines_from_readline:
  "readlines_from acc s =
     (if acc @ s = [] then []
      else (acc @ fst (readline s)) # readlines_from [] (snd (readline s)))"
  by (induction s arbitrary: acc) (auto split: prod.splits)

lemma readlines_readline:
  "readlines s = (if s = [] then [] else fst (readline s) # readlines (snd (readline s)))"
  using readlines_from_readline [of "[]" s] by (simp add: readlines_def)

lemma readline_empty: "fst (readline s) = [] \<longleftrightarrow> s = []"
  by (cases s) (auto split: prod.splits)

lemma drop_append_le: "k \<le> length a \<Longrightarrow> drop k a @ b = drop k (a @ b)"
  by simp

lemma foldl_deque_append:
  "length d \<le> n \<Longrightarrow> foldl (deque_append n) d ls = drop (length d + length ls - n) (d @ ls)"
proof (induction ls arbitrary: d)
  case Nil
  then show ?case by simp
next
  case (Cons x xs)
  define k where "k = Suc (length d) - n"
  define d' where "d' = drop k (d @ [x])"
  have step: "deque_append n d x = d'"
    using Cons.prems by (simp add: deque_append_drop d'_def k_def)
  have len: "length d' \<le> n"
    using length_deque_append [OF Cons.prems, of x] step by simp
  have k: "k \<le> Suc (length d)" by (simp add: k_def)
  have "foldl (deque_append n) d (x # xs) = foldl (deque_append n) d' xs"
    using step by simp
  also have "\<dots> = drop (length d' + length xs - n) (d' @ xs)"
    by (rule Cons.IH [OF len])
  also have "d' @ xs = drop k (d @ x # xs)"
    using drop_append_le [of k "d @ [x]" xs] k by (simp add: d'_def)
  also have "drop (length d' + length xs - n) (drop k (d @ x # xs)) =
             drop (length d' + length xs - n + k) (d @ x # xs)"
    by (simp only: drop_drop)
  also have "length d' + length xs - n + k = length d + length (x # xs) - n"
    using Cons.prems by (auto simp: d'_def k_def)
  finally show ?case .
qed

lemma drain_lines_quiet:
  "\<forall>m. lg m = None \<Longrightarrow> drain_lines lg ls buf = (None, foldl (deque_append maxlen) buf ls)"
  by (induction ls arbitrary: buf) (simp_all add: Let_def)

lemma stream_loop_quiet:
  "\<forall>m. lg m = None \<Longrightarrow>
   \<exists>ls pipe'. stream_loop lg sched pipe buf = (None, pipe', foldl (deque_append maxlen) buf ls)
     \<and> readlines pipe = ls @ readlines pipe'"
proof (induction sched arbitrary: pipe buf)
  case Nil
  show ?case by (rule exI [of _ "[]"]) simp
next
  case (Cons ready sched)
  show ?case
  proof (cases ready)
    case False
    with Cons.IH [OF Cons.prems, of pipe buf] show ?thesis by simp
  next
    case True
    obtain line rest where rl: "readline pipe = (line, rest)" by (cases "readline pipe")
    show ?thesis
    proof (cases "line = []")
      case e: True
      with rl have "pipe = []" using readline_empty [of pipe] by simp
      with rl have "rest = []" by simp
      with Cons.IH [OF Cons.prems, of rest buf] True rl e \<open>pipe = []\<close> show ?thesis by simp
    next
      case ne: False
      with rl have pne: "pipe \<noteq> []" using readline_empty [of pipe] by auto
      from Cons.IH [OF Cons.prems, of rest "deque_append maxlen buf line"]
      obtain ls pipe' where
        1: "stream_loop lg sched rest (deque_append maxlen buf line) =
             (None, pipe', foldl (deque_append maxlen) (deque_append maxlen buf line) ls)"
        and 2: "readlines rest = ls @ readlines pipe'" by blast
      have 3: "readlines pipe = line # readlines rest"
        using readlines_readline [of pipe] pne rl by simp
      have "stream_loop lg (ready # sched) pipe buf =
              (None, pipe', foldl (deque_append maxlen) buf (line # ls))"
        using True rl ne Cons.prems 1 by simp
      moreover have "readlines pipe = (line # ls) @ readlines pipe'"
        using 2 3 by simp
      ultimately show ?thesis by blast
    qed
  qed
qed

lemma stream_output_quiet:
  assumes "\<forall>m. lg m = None"
  shows "stream_output lg sched pipe = (None, foldl (deque_append maxlen) [] (readlines pipe))"
proof -
  from stream_loop_quiet [OF assms, of sched pipe "[]"]
  obtain ls pipe' where
    1: "stream_loop lg sched pipe [] = (None, pipe', foldl (deque_append maxlen) [] ls)"
    and 2: "readlines pipe = ls @ readlines pipe'" by blast
  show ?thesis
    using 1 2 by (simp add: stream_output_def drain_def drain_lines_quiet [OF assms])
qed

lemma length_drain_lines:
  "length buf \<le> maxlen \<Longrightarrow> length (snd (drain_lines lg ls buf)) \<le> maxlen"
  by (induction ls arbitrary: buf) (auto simp: Let_def length_deque_append split: option.splits)

lemma length_stream_loop:
  "length buf \<le> maxlen \<Longrightarrow> length (snd (snd (stream_loop lg sched pipe buf))) \<le> maxlen"
  by (induction sched arbitrary: pipe buf)
     (auto simp: length_deque_append split: option.splits prod.splits)

lemma length_stream_output:
  "length (snd (stream_output lg sched pipe)) \<le> maxlen"
proof -
  obtain r pipe' buf where 1: "stream_loop lg sched pipe [] = (r, pipe', buf)"
    by (cases "stream_loop lg sched pipe []")
  have "length buf \<le> maxlen"
    using length_stream_loop [of "[]" lg sched pipe] 1 by simp
  then have "length (snd (drain_lines lg (readlines pipe') buf)) \<le> maxlen"
    by (rule length_drain_lines)
  with 1 show ?thesis
    by (cases r) (auto simp: stream_output_def drain_def Let_def split: prod.splits)
qed


text \<open>
  Claim C3. The output buffer \<open>stdout_buffer\<close> never holds more than its capacity of 10
  lines: neither after any sequence of appends nor at the end of the streaming thread,
  whatever the logger does. After the lines \<open>ls\<close> have been appended it holds the last 10
  of them in the order they were appended, all of them when there are fewer. When the
  logger returns normally, the streaming thread appends every line of the pipe, so the
  buffer ends as the last 10 lines the child produced.
\<close>

theorem stdout_buffer_keeps_last_lines:
  "length (snd (stream_output lg sched pipe)) \<le> 10
   \<and> length (foldl (deque_append maxlen) [] (ls :: string list)) \<le> 10
   \<and> foldl (deque_append maxlen) [] ls = drop (length ls - 10) ls
   \<and> ((\<forall>m. lg m = None) \<longrightarrow>
        snd (stream_output lg sched pipe) =
          drop (length (readlines pipe) - 10) (readlines pipe))"
proof -
  have fifo: "foldl (deque_append maxlen) [] xs = drop (length xs - 10) xs" for xs :: "string list"
    using foldl_deque_append [of "[]" maxlen xs] by (simp add: maxlen_def)
  have "length (snd (stream_output lg sched pipe)) \<le> 10"
    using length_stream_output [of lg sched pipe] by (simp add: maxlen_def)
  moreover have "length (foldl (deque_append maxlen) [] ls) \<le> 10"
    by (simp add: fifo)
  moreover have "(\<forall>m. lg m = None) \<longrightarrow>
        snd (stream_output lg sched pipe) =
          drop (length (readlines pipe) - 10) (readlines pipe)"
    by (simp add: stream_output_quiet fifo)
  ultimately show ?thesis using fifo by blast
qed

theorem stdout_buffer_keeps_last_lines_witness:
  "(\<forall>m. (\<lambda>_. None :: exn option) m = None) \<and>
   snd (stream_output (\<lambda>_. None) [True, False, True]
          (concat (map (\<lambda>c. [c, newline]) ''abcdefghijkl''))) =
     map (\<lambda>c. [c, newline]) ''cdefghijkl''"
  using stdout_buffer_keeps_last_lines
    [of "\<lambda>_. None" "[True, False, True]" "concat (map (\<lambda>c. [c, newline]) ''abcdefghijkl'')" "[]"]
  by (simp add: readlines_def)

subsection \<open>The blocking run\<close>



lemma stop_process_exited: "returncode s = Some c \<Longrightarrow> stop_process env p s = Some s"
  by (cases p) (simp_all add: stop_process_def poll_def)

lemma wait_loop_inv:
  assumes "wait_loop env s = Some y"
  shows "returncode s = None \<longrightarrow>
     signals (snd y) = signals s \<and> terminate_flag (snd y) = terminate_flag s \<and>
     queries s < queries (snd y) \<and>
     (case fst y of
        Inr c \<Rightarrow> returncode (snd y) = Some c \<and> os_poll env (queries (snd y) - 1) = Some c
      | Inl e \<Rightarrow> returncode (snd y) = None \<and>
                 (\<forall>k. queries s \<le> k \<and> k < queries (snd y) \<longrightarrow> os_poll env k = None))"
proof (induct rule: wait_loop.raw_induct [OF _ assms])
  case (1 wait_loop env s y)
  show ?case
  proof
    assume rc: "returncode s = None"
    let ?s1 = "s\<lparr>returncode := os_poll env (queries s), queries := Suc (queries s)\<rparr>"
    have p: "poll env s = (os_poll env (queries s), ?s1)"
      using rc by (simp add: poll_def Let_def)
    show "signals (snd y) = signals s \<and> terminate_flag (snd y) = terminate_flag s \<and>
     queries s < queries (snd y) \<and>
     (case fst y of
        Inr c \<Rightarrow> returncode (snd y) = Some c \<and> os_poll env (queries (snd y) - 1) = Some c
      | Inl e \<Rightarrow> returncode (snd y) = None \<and>
                 (\<forall>k. queries s \<le> k \<and> k < queries (snd y) \<longrightarrow> os_poll env k = None))"
    proof (cases "os_poll env (queries s)")
      case (Some c)
      with 1(2) p have "y = (Inr c, ?s1)" by simp
      with Some show ?thesis by simp
    next
      case None
      show ?thesis
      proof (cases "sleep_raises env (slept s)")
        case (Some e)
        with 1(2) p None have "y = (Inl e, ?s1)" by simp
        with None show ?thesis by (auto simp: le_less_Suc_eq)
      next
        case sl: None
        let ?s2 = "?s1\<lparr>slept := Suc (slept s)\<rparr>"
        from 1(2) p None sl have rec: "wait_loop env ?s2 = Some y" by simp
        have "returncode ?s2 = None" using None by simp
        with 1(1) [OF rec] have ih:
          "signals (snd y) = signals ?s2 \<and> terminate_flag (snd y) = terminate_flag ?s2 \<and>
           queries ?s2 < queries (snd y) \<and>
           (case fst y of
              Inr c \<Rightarrow> returncode (snd y) = Some c \<and> os_poll env (queries (snd y) - 1) = Some c
            | Inl e \<Rightarrow> returncode (snd y) = None \<and>
                 (\<forall>k. queries ?s2 \<le> k \<and> k < queries (snd y) \<longrightarrow> os_poll env k = None))"
          by blast
        show ?thesis
        proof (cases "fst y")
          case (Inl e)
          with ih None show ?thesis
            by (auto simp: le_less_Suc_eq Suc_le_eq elim: le_neq_trans dest: le_neq_implies_less)
        next
          case (Inr c)
          with ih show ?thesis by auto
        qed
      qed
    qed
  qed
qed




lemma try_block_inv:
  assumes "try_block env lg init_state = Some (out, sc, s')"
  shows "signals s' = [] \<and> 0 < queries s' \<and>
     (case returncode s' of
        Some c \<Rightarrow> os_poll env (queries s' - 1) = Some c
      | None \<Rightarrow> (\<forall>k<queries s'. os_poll env k = None) \<and> (\<exists>e. out = Raised e))
     \<and> ((\<exists>e. out = Raised e) \<longrightarrow> sc = None)"
proof -
  from assms obtain r where w: "wait_loop env init_state = Some (r, s')"
    by (auto simp: try_block_def Let_def split: option.splits sum.splits)
  have inv: "signals s' = [] \<and> 0 < queries s' \<and>
     (case r of
        Inr c \<Rightarrow> returncode s' = Some c \<and> os_poll env (queries s' - 1) = Some c
      | Inl e \<Rightarrow> returncode s' = None \<and> (\<forall>k<queries s'. os_poll env k = None))"
    using wait_loop_inv [OF w] by (auto simp: init_state_def split: sum.splits)
  show ?thesis
  proof (cases r)
    case (Inl e)
    with assms w have "out = Raised e" "sc = None"
      by (auto simp: try_block_def)
    with inv Inl show ?thesis by simp
  next
    case (Inr c)
    with assms w have "(\<exists>e. out = Raised e) \<longrightarrow> sc = None"
      by (auto simp: try_block_def Let_def split: option.splits)
    with inv Inr show ?thesis by simp
  qed
qed

lemma blocking_branch_signals:
  assumes "blocking_branch env lg pid init_state = Some (out, s)"
  shows "0 < queries s \<and>
     (if \<forall>k<queries s. os_poll env k = None
      then signals s = [(os_getpgid env pid, SIGTERM)] else signals s = [])
     \<and> ((\<exists>r. out = Returned (Result r)) \<longrightarrow> signals s = [])"
proof -
  from assms obtain out0 sc s1 where t: "try_block env lg init_state = Some (out0, sc, s1)"
    by (auto simp: blocking_branch_def split: option.splits)
  from assms t obtain x where f: "finally_block env lg pid s1 = Some (x, s)"
    by (auto simp: blocking_branch_def Let_def split: option.splits)
  from f have st: "stop_process env (Some pid) (s1\<lparr>terminate_flag := True\<rparr>) = Some s"
    by (auto simp: finally_block_def split: option.splits)
  note inv = try_block_inv [OF t]
  have res: "(\<exists>r. out = Returned (Result r)) \<longrightarrow> (\<exists>v. out0 = Returned v)"
  proof (cases out0)
    case (Returned v)
    then show ?thesis by simp
  next
    case (Raised e)
    with inv have "sc = None" by simp
    with assms t f Raised show ?thesis
      by (cases x) (auto simp: blocking_branch_def Let_def except_block_def split: if_splits)
  qed
  show ?thesis
  proof (cases "returncode s1")
    case (Some c)
    with st have "s = s1\<lparr>terminate_flag := True\<rparr>"
      by (simp add: stop_process_exited)
    with inv Some show ?thesis
      by (auto intro: exI [of _ "queries s1 - 1"])
  next
    case None
    with inv have all: "\<forall>k<queries s1. os_poll env k = None" by simp
    show ?thesis
    proof (cases "os_poll env (queries s1)")
      case c: (Some c)
      with st None have s: "s = s1\<lparr>terminate_flag := True, returncode := Some c,
                                    queries := Suc (queries s1)\<rparr>"
        by (simp add: stop_process_def poll_def Let_def)
      have "\<not> (\<forall>k<queries s. os_poll env k = None)"
        using c s by (auto intro: exI [of _ "queries s1"])
      with s inv show ?thesis by simp
    next
      case n: None
      with st None obtain c where
        s: "s = s1\<lparr>terminate_flag := True, queries := Suc (queries s1),
                   signals := signals s1 @ [(os_getpgid env pid, SIGTERM)],
                   returncode := Some c\<rparr>"
        by (auto simp: stop_process_def poll_def Let_def split: option.splits)
      have "\<forall>k<queries s. os_poll env k = None"
        using all n s by (auto simp: less_Suc_eq)
      moreover from inv None have "\<exists>e. out0 = Raised e" by simp
      with res have "\<not> (\<exists>r. out = Returned (Result r))" by auto
      ultimately show ?thesis using s inv by simp
    qed
  qed
qed

text \<open>
  Claim C1. The claim: a blocking \<open>run_and_stream\<close> that spawned its child always returns
  a result, an exception raised in the \<open>try\<close> block being captured in the field \<open>error\<close>.
  The code does not do so. The \<open>except\<close> clause builds its result from \<open>stdout_content\<close>,
  which is assigned only on the last line of the \<open>try\<close> block, after every statement
  that can raise; so the clause itself raises \<open>UnboundLocalError\<close>, which reaches the
  caller once the \<open>finally\<close> clause has run. Here the child exits with code 0 and the
  logger raises on the message that reports it.
\<close>

theorem wait_exception_is_not_captured:
  "run_and_stream (example_env 1 0 []) closing_config ''true'' True =
     Some (Raised (UnboundLocalError ''stdout_content''),
           \<lparr>returncode = Some 0, queries = 2, slept = 1, signals = [],
            terminate_flag = True\<rparr>)"
  by (simp add: run_and_stream_def closing_config_def closing_logger_def example_env_def
        log_def blocking_branch_def try_block_def finally_block_def except_block_def
        stop_process_def poll_def wait_loop.simps init_state_def Let_def str_int_def
        str_nat.simps)


text \<open>
  Claim C2, as amended. A blocking \<open>run_and_stream\<close> that comes back sends \<open>SIGTERM\<close> to
  the process group of its child at most once, and not on every path: \<open>stop_process\<close>
  signals only a process whose \<open>poll()\<close> is still \<open>None\<close>. The group is signalled,
  once, exactly when every poll the call made (the last one being the poll of
  \<open>stop_process\<close>) found the child running, which needs an exception to have left the
  wait loop; whenever the call returns a result, no signal was sent.
\<close>

theorem blocking_run_signals_group_at_most_once:
  assumes "run_and_stream env cfg command True = Some (out, s)"
  shows "(if 0 < queries s \<and> (\<forall>k<queries s. os_poll env k = None)
          then \<exists>pid. popen env command = Inr pid \<and> signals s = [(os_getpgid env pid, SIGTERM)]
          else signals s = [])
         \<and> ((\<exists>r. out = Returned (Result r)) \<longrightarrow> signals s = [])"
proof (cases "\<exists>lg pid. popen env command = Inr pid \<and>
                blocking_branch env lg pid init_state = Some (out, s)")
  case True
  then obtain lg pid where "popen env command = Inr pid"
    and "blocking_branch env lg pid init_state = Some (out, s)" by blast
  with blocking_branch_signals [of env lg pid out s] show ?thesis by auto
next
  case False
  with assms have "s = init_state" and "\<exists>e. out = Raised e"
    by (auto simp: run_and_stream_def Let_def split: option.splits sum.splits)
  then show ?thesis by (auto simp: init_state_def)
qed

theorem blocking_run_signals_group_at_most_once_witness:
  "run_and_stream interrupted_env quiet_config ''sleep 60'' True =
     Some (Raised (UnboundLocalError ''stdout_content''),
           \<lparr>returncode = Some (- 15), queries = 4, slept = 2, signals = [(4242, SIGTERM)],
            terminate_flag = True\<rparr>)
   \<and> os_poll interrupted_env 0 = None \<and> os_poll interrupted_env 1 = None
   \<and> os_poll interrupted_env 2 = None \<and> os_poll interrupted_env 3 = None
   \<and> popen interrupted_env ''sleep 60'' = Inr 4242
   \<and> os_getpgid interrupted_env 4242 = 4242"
proof -
  have run: "run_and_stream interrupted_env quiet_config ''sleep 60'' True =
     Some (Raised (UnboundLocalError ''stdout_content''),
           \<lparr>returncode = Some (- 15), queries = 4, slept = 2,
            signals = [(4242, SIGTERM)], terminate_flag = True\<rparr>)"
    by (simp add: run_and_stream_def quiet_config_def quiet_logger_def interrupted_env_def
        log_def blocking_branch_def try_block_def finally_block_def except_block_def
        stop_process_def poll_def wait_loop.simps init_state_def Let_def)
  from blocking_run_signals_group_at_most_once [OF run]
  show ?thesis using run by (simp add: interrupted_env_def)
qed

text \<open>
  Claim C2, as stated, fails: a child that has exited with code 0 at the first poll is
  never signalled.
\<close>

theorem blocking_run_without_signal:
  "run_and_stream (example_env 0 0 []) quiet_config ''true'' True =
     Some (Returned (Result
             \<lparr>success = True, exit_code = Some 0, stdout = [], error = None,
              traceback = None\<rparr>),
           \<lparr>returncode = Some 0, queries = 1, slept = 0, signals = [],
            terminate_flag = True\<rparr>)"
  by (simp add: run_and_stream_def quiet_config_def quiet_logger_def example_env_def
        log_def blocking_branch_def try_block_def finally_block_def except_block_def
        stop_process_def poll_def wait_loop.simps init_state_def Let_def str_int_def
        str_nat.simps stream_output_def drain_def readlines_def)





text \<open>
  Claim C8. The claim: running \<open>echo hello && exit 3\<close> in blocking mode gives
  \<open>success = False\<close>, \<open>exit_code = 3\<close> and a \<open>stdout\<close> equal to the line \<open>hello\<close>. The code
  builds \<open>stdout\<close> from \<open>stdout_buffer\<close> inside the \<open>try\<close> block, before the \<open>finally\<close>
  clause sets the terminate flag and joins the streaming thread; the result holds what
  the thread has appended so far. When the child has exited at the first poll and the
  thread has not read the line yet, \<open>stdout\<close> is empty.
\<close>

theorem echo_hello_tail_is_empty:
  "run_and_stream early_exit_env quiet_config ''echo hello && exit 3'' True =
     Some (Returned (Result
             \<lparr>success = False, exit_code = Some 3, stdout = [], error = None,
              traceback = None\<rparr>),
           \<lparr>returncode = Some 3, queries = 1, slept = 0, signals = [],
            terminate_flag = True\<rparr>)"
  by (simp add: run_and_stream_def quiet_config_def quiet_logger_def early_exit_env_def
        log_def blocking_branch_def try_block_def finally_block_def except_block_def
        stop_process_def poll_def wait_loop.simps init_state_def Let_def str_int_def
        str_nat.simps stream_output_def drain_def readlines_def)

subsection \<open>Reading lines\<close>

lemma readline_length: "length (fst (readline s)) + length (snd (readline s)) = length s"
  by (induction s) (auto split: prod.splits)

lemma readline_shorter: "s \<noteq> [] \<Longrightarrow> length (snd (readline s)) < length s"
  using readline_length [of s] readline_empty [of s] by (cases "fst (readline s)") auto

lemma read_loop_skip:
  "(\<forall>i<d. sel (k + i) = Nothing_ready) \<Longrightarrow>
   read_loop sel bad k inp ys = read_loop sel bad (k + d) inp ys"
proof (induction d arbitrary: k)
  case 0
  then show ?case by simp
next
  case (Suc d)
  from Suc.prems have nr: "sel k = Nothing_ready" by (metis add.right_neutral zero_less_Suc)
  have "\<forall>i<d. sel (Suc k + i) = Nothing_ready"
    using Suc.prems by (auto dest: spec [where x = "Suc i" for i])
  from Suc.IH [OF this]
  have "read_loop sel bad (Suc k) inp ys = read_loop sel bad (k + Suc d) inp ys"
    by simp
  moreover have "read_loop sel bad k inp ys = read_loop sel bad (Suc k) inp ys"
    using nr by (subst read_loop.simps) simp
  ultimately show ?case by simp
qed

lemma read_loop_raise:
  assumes "\<forall>i<d. sel (k + i) = Nothing_ready" and "sel (k + d) = Select_raises e"
  shows "read_loop sel bad k inp ys = Some (ys, Raised e)"
proof -
  have "read_loop sel bad k inp ys = read_loop sel bad (k + d) inp ys"
    by (rule read_loop_skip [OF assms(1)])
  also have "\<dots> = Some (ys, Raised e)"
    using assms(2) by (subst read_loop.simps) simp
  finally show ?thesis .
qed

lemma read_loop_fair:
  assumes fair: "\<forall>k. \<exists>j\<ge>k. sel j = Readable"
    and calm: "\<forall>k. sel k = Readable \<or> sel k = Nothing_ready"
  shows "read_loop sel None k inp ys = Some (ys @ map strip (readlines inp), Returned ())"
proof (induction "length inp" arbitrary: k inp ys rule: less_induct)
  case less
  define j where "j = (LEAST j. k \<le> j \<and> sel j = Readable)"
  from fair have ex: "\<exists>j. k \<le> j \<and> sel j = Readable" by blast
  have kj: "k \<le> j" and rj: "sel j = Readable"
    using LeastI_ex [OF ex] by (simp_all add: j_def)
  have before: "\<forall>i<j - k. sel (k + i) = Nothing_ready"
  proof (intro allI impI)
    fix i assume "i < j - k"
    then have "k + i < j" by simp
    from not_less_Least [OF this [unfolded j_def]] have "sel (k + i) \<noteq> Readable" by simp
    with calm show "sel (k + i) = Nothing_ready" by blast
  qed
  have skip: "read_loop sel None k inp ys = read_loop sel None j inp ys"
    using read_loop_skip [OF before, of None inp ys] kj by simp
  obtain line rest where rl: "readline inp = (line, rest)" by (cases "readline inp")
  show ?case
  proof (cases "inp = []")
    case True
    then have "read_loop sel None j inp ys = Some (ys, Returned ())"
      using rj by (subst read_loop.simps) simp
    with skip True show ?thesis by (simp add: readlines_def)
  next
    case False
    then have ne: "line \<noteq> []" using readline_empty [of inp] rl by simp
    have len: "length rest < length inp"
      using readline_shorter [OF False] rl by simp
    have "read_loop sel None j inp ys = read_loop sel None (Suc j) rest (ys @ [strip line])"
      using rj rl ne by (subst read_loop.simps) simp
    also have "\<dots> = Some ((ys @ [strip line]) @ map strip (readlines rest), Returned ())"
      by (rule less [OF len])
    finally show ?thesis
      using skip readlines_readline [of inp] False rl by simp
  qed
qed

lemma every_other_fair: "\<forall>k. \<exists>j\<ge>k. every_other j = Readable"
proof
  fix k
  have "k \<le> 2 * k" and "every_other (2 * k) = Readable" by (simp_all add: every_other_def)
  then show "\<exists>j\<ge>k. every_other j = Readable" by blast
qed

text \<open>
  Claim C10, as amended. \<open>read_stdout_lines\<close> raises \<open>ValueError\<close>, before it yields
  anything, when \<open>proc.stdout\<close> is \<open>None\<close>. The converse does not hold, because the
  function does not handle what \<open>select\<close> and \<open>readline\<close> raise on a pipe: when \<open>select\<close>
  raises before any line has been read (a \<open>ValueError\<close> for a closed pipe), its
  exception leaves the generator, and so does the \<open>UnicodeDecodeError\<close> of a first read
  that does not decode, both with nothing yielded. When the output decodes and \<open>select\<close> does not raise and reports the
  pipe readable again and again, the generator yields every line of the pipe with the
  whitespace at both ends removed, in order, and finishes at the read that returns the
  empty string, the end of the stream.
\<close>

theorem read_stdout_lines_raises_without_pipe:
  "(proc_stdout = None \<longrightarrow>
      read_stdout_lines sel proc_stdout =
        Some ([], Raised (ValueError
          ''Ensure stdout=subprocess.PIPE and text=True are set in Popen.'')))
   \<and> (proc_stdout = Some p \<and> undecodable_after p = None
        \<and> (\<forall>k. sel k = Readable \<or> sel k = Nothing_ready)
        \<and> (\<forall>k. \<exists>j\<ge>k. sel j = Readable) \<longrightarrow>
        read_stdout_lines sel proc_stdout =
          Some (map strip (readlines (content p)), Returned ()))
   \<and> (proc_stdout = Some p \<and> (\<forall>i<d. sel i = Nothing_ready) \<and> sel d = Select_raises e \<longrightarrow>
        read_stdout_lines sel proc_stdout = Some ([], Raised e))
   \<and> (proc_stdout = Some p \<and> undecodable_after p = Some 0
        \<and> (\<forall>i<d. sel i = Nothing_ready) \<and> sel d = Readable \<longrightarrow>
        read_stdout_lines sel proc_stdout = Some ([], Raised UnicodeDecodeError))"
proof (intro conjI impI)
  assume "proc_stdout = None"
  then show "read_stdout_lines sel proc_stdout =
        Some ([], Raised (ValueError
          ''Ensure stdout=subprocess.PIPE and text=True are set in Popen.''))"
    by (simp add: read_stdout_lines_def)
next
  assume a: "proc_stdout = Some p \<and> undecodable_after p = None
        \<and> (\<forall>k. sel k = Readable \<or> sel k = Nothing_ready)
        \<and> (\<forall>k. \<exists>j\<ge>k. sel j = Readable)"
  then have fair: "\<forall>k. \<exists>j\<ge>k. sel j = Readable"
    and calm: "\<forall>k. sel k = Readable \<or> sel k = Nothing_ready" by blast+
  from a read_loop_fair [OF fair calm, of 0 "content p" "[]"]
  show "read_stdout_lines sel proc_stdout =
          Some (map strip (readlines (content p)), Returned ())"
    by (simp add: read_stdout_lines_def)
next
  assume a: "proc_stdout = Some p \<and> (\<forall>i<d. sel i = Nothing_ready) \<and> sel d = Select_raises e"
  then have "read_loop sel (undecodable_after p) 0 (content p) [] = Some ([], Raised e)"
    by (intro read_loop_raise [of d]) simp_all
  with a show "read_stdout_lines sel proc_stdout = Some ([], Raised e)"
    by (simp add: read_stdout_lines_def)
next
  assume a: "proc_stdout = Some p \<and> undecodable_after p = Some 0
        \<and> (\<forall>i<d. sel i = Nothing_ready) \<and> sel d = Readable"
  then have "read_loop sel (Some 0) 0 (content p) [] = read_loop sel (Some 0) (0 + d) (content p) []"
    by (intro read_loop_skip) simp
  also have "\<dots> = Some ([], Raised UnicodeDecodeError)"
    using a by (subst read_loop.simps) simp
  finally show "read_stdout_lines sel proc_stdout = Some ([], Raised UnicodeDecodeError)"
    using a by (simp add: read_stdout_lines_def)
qed


theorem read_stdout_lines_raises_without_pipe_witness:
  "read_stdout_lines every_other None =
     Some ([], Raised (ValueError
       ''Ensure stdout=subprocess.PIPE and text=True are set in Popen.''))
   \<and> read_stdout_lines every_other
         (Some \<lparr>content = '' a b '' @ [newline] @ ''c'' @ [newline] @ [newline] @ ''d'',
                undecodable_after = None\<rparr>) =
       Some ([''a b'', ''c'', [], ''d''], Returned ())
   \<and> read_stdout_lines every_other
         (Some \<lparr>content = [CHR 0xFF], undecodable_after = Some 0\<rparr>) =
       Some ([], Raised UnicodeDecodeError)"
proof -
  have calm: "\<forall>k. every_other k = Readable \<or> every_other k = Nothing_ready"
    by (simp add: every_other_def)
  have first: "\<forall>i<0. every_other i = Nothing_ready" "every_other 0 = Readable"
    by (simp_all add: every_other_def)
  note main = read_stdout_lines_raises_without_pipe
  have 1: "read_stdout_lines every_other None =
     Some ([], Raised (ValueError
       ''Ensure stdout=subprocess.PIPE and text=True are set in Popen.''))"
    using main [of None every_other] by simp
  have 2: "read_stdout_lines every_other
         (Some \<lparr>content = '' a b '' @ [newline] @ ''c'' @ [newline] @ [newline] @ ''d'',
                undecodable_after = None\<rparr>) =
       Some ([''a b'', ''c'', [], ''d''], Returned ())"
    using main [THEN conjunct2, THEN conjunct1, THEN mp,
               of "Some \<lparr>content = '' a b '' @ [newline] @ ''c'' @ [newline] @ [newline] @ ''d'',
                          undecodable_after = None\<rparr>"
                  "\<lparr>content = '' a b '' @ [newline] @ ''c'' @ [newline] @ [newline] @ ''d'',
                          undecodable_after = None\<rparr>" every_other]
          calm every_other_fair
    by (simp add: readlines_def strip_def isspace_def)
  have 3: "read_stdout_lines every_other
         (Some \<lparr>content = [CHR 0xFF], undecodable_after = Some 0\<rparr>) =
       Some ([], Raised UnicodeDecodeError)"
    using main [THEN conjunct2, THEN conjunct2, THEN conjunct2, THEN mp,
               of "Some \<lparr>content = [CHR 0xFF], undecodable_after = Some 0\<rparr>"
                  "\<lparr>content = [CHR 0xFF], undecodable_after = Some 0\<rparr>" 0 every_other]
          first
    by simp
  from 1 2 3 show ?thesis by simp
qed

text \<open>
  Claim C10, as stated, fails: on a pipe that has been closed the generator raises
  \<open>ValueError\<close> although \<open>proc.stdout\<close> is not \<open>None\<close>.
\<close>

theorem read_stdout_lines_raises_on_closed_pipe:
  "read_stdout_lines closed_pipe
     (Some \<lparr>content = ''hello'' @ [newline], undecodable_after = None\<rparr>) =
   Some ([], Raised (ValueError ''I/O operation on closed file''))"
  unfolding read_stdout_lines_def
  by (subst read_loop.simps) (simp add: closed_pipe_def)

subsection \<open>Killing a process tree\<close>








subsection \<open>Polling for a file lock\<close>

lemma lock_loop_returns:
  "lock_loop env filepath mode timeout poll_interval now tried =
     Some (Returned \<lparr>lock_path = filepath, lock_mode = mode, acquired = False\<rparr>,
           tried @ [now])"
  by (subst lock_loop.simps) (simp add: Lock_def)

text \<open>
  Claim C6. The claim: when another holder has the lock, \<open>lock_file\<close> retries every poll
  interval and raises \<open>TimeoutError\<close> once the timeout has passed. The code does not:
  the call in its \<open>try\<close> block only constructs the \<open>Lock\<close> object, which does not raise
  \<open>AlreadyLocked\<close>, so the \<open>except\<close> clause with the deadline and the sleep is never
  entered. With the lock held by another for ever, a timeout of 0.3 and a poll
  interval of 0.1 seconds, \<open>lock_file\<close> returns at its first try, at time 100.
\<close>

theorem lock_file_ignores_holder:
  "held_by_other held_env ''shared.lock'' 100
   \<and> lock_file held_env ''shared.lock'' ''a'' (3 / 10) (1 / 10) =
       Some (Returned \<lparr>lock_path = ''shared.lock'', lock_mode = ''a'', acquired = False\<rparr>,
             [100])"
  by (simp add: lock_file_def lock_loop_returns held_env_def)

text \<open>
  Claim C7. The claim: \<open>lock_file\<close> returns a handle only if the lock was acquired. The
  code returns, at its first try and whoever holds the lock, the object it has just
  constructed, on which \<open>acquire\<close> has not been called: no lock is held.
\<close>

theorem lock_file_returns_unacquired_lock:
  "lock_file env filepath mode timeout poll_interval =
     Some (Returned \<lparr>lock_path = filepath, lock_mode = mode, acquired = False\<rparr>,
           [clock0 env])"
  by (simp add: lock_file_def lock_loop_returns)

end
